theory Spec2Isabelle
  imports Main "HOL-Library.AList" "HOL-Library.Sublist"
begin

section \<open>Strings and header names\<close>

text \<open>
  Go strings are byte sequences; \<^typ>\<open>string\<close> is a list of 8-bit characters.
  The capitalisation done by \<open>net/textproto\<close> acts on the ASCII letters only.
  \<open>strings.ToLower\<close> is given for ASCII, which is all an HTTP header name may
  contain: on other bytes Go maps the letters of Unicode, while \<open>ToLower\<close> here leaves
  them alone. The general statements below hold for any function in its place.
\<close>

definition asciiLower :: string where
  "asciiLower = ''abcdefghijklmnopqrstuvwxyz''"

definition asciiUpper :: string where
  "asciiUpper = ''ABCDEFGHIJKLMNOPQRSTUVWXYZ''"

definition isLower :: "char \<Rightarrow> bool" where
  "isLower c = (c \<in> set asciiLower)"

definition isUpper :: "char \<Rightarrow> bool" where
  "isUpper c = (c \<in> set asciiUpper)"

definition lowerByte :: "char \<Rightarrow> char" where
  "lowerByte c = (case map_of (zip asciiUpper asciiLower) c of Some l \<Rightarrow> l | None \<Rightarrow> c)"

definition upperByte :: "char \<Rightarrow> char" where
  "upperByte c = (case map_of (zip asciiLower asciiUpper) c of Some u \<Rightarrow> u | None \<Rightarrow> c)"

definition ToLower :: "string \<Rightarrow> string" where
  "ToLower s = map lowerByte s"

text \<open>\<open>strings.Contains(s, substr)\<close>: \<open>substr\<close> occurs in \<open>s\<close> at some position.\<close>

fun Contains :: "string \<Rightarrow> string \<Rightarrow> bool" where
  "Contains [] substr = (substr = [])"
| "Contains (c # cs) substr = (prefix substr (c # cs) \<or> Contains cs substr)"

text \<open>
  \<open>textproto.CanonicalMIMEHeaderKey\<close>, through which \<open>http.Header.Get\<close> and
  \<open>http.Header.Set\<close> pass every key. A key with a byte that is not a token byte is
  returned as it is; otherwise the first letter and each letter after a hyphen are put in
  upper case and every other letter in lower case.
\<close>

definition validHeaderFieldByte :: "char \<Rightarrow> bool" where
  "validHeaderFieldByte c =
     (isLower c \<or> isUpper c \<or> c \<in> set ''0123456789'' \<or> c \<in> set ''!#$%&*+-.^_`|~''
      \<or> c = CHR 0x27)"

fun quickScan :: "bool \<Rightarrow> string \<Rightarrow> bool" where
  "quickScan upper [] = False"
| "quickScan upper (c # cs) =
     (if \<not> validHeaderFieldByte c then False
      else if upper \<and> isLower c then True
      else if \<not> upper \<and> isUpper c then True
      else quickScan (c = CHR ''-'') cs)"

fun headerScan :: "string \<Rightarrow> bool \<Rightarrow> bool option" where
  "headerScan [] noCanon = Some noCanon"
| "headerScan (c # cs) noCanon =
     (if validHeaderFieldByte c then headerScan cs noCanon
      else if c = CHR '' '' then headerScan cs True
      else None)"

fun capitalise :: "bool \<Rightarrow> string \<Rightarrow> string" where
  "capitalise upper [] = []"
| "capitalise upper (c # cs) =
     (let c' = (if upper \<and> isLower c then upperByte c
                else if \<not> upper \<and> isUpper c then lowerByte c
                else c)
      in c' # capitalise (c' = CHR ''-'') cs)"

definition canonicalMIMEHeaderKey :: "string \<Rightarrow> string \<times> bool" where
  "canonicalMIMEHeaderKey a =
     (case headerScan a False of
        None \<Rightarrow> (a, False)
      | Some True \<Rightarrow> (a, True)
      | Some False \<Rightarrow> (capitalise True a, True))"

definition CanonicalMIMEHeaderKey :: "string \<Rightarrow> string" where
  "CanonicalMIMEHeaderKey s =
     (if quickScan True s then fst (canonicalMIMEHeaderKey s) else s)"

section \<open>HTTP headers and requests\<close>

text \<open>
  \<open>http.Header\<close> is \<open>map[string][]string\<close>. It is kept as an association list: the
  order of the list is the order in which a \<open>range\<close> loop happens to visit the map, so a
  statement for every list is a statement for every iteration order. \<open>Get\<close> returns the
  first value stored under the canonical key, or the empty string; \<open>Set\<close> replaces the
  values under the canonical key by the single given value. The request pointers and the
  header maps that the functions of \<open>tracer.go\<close> receive are taken to be non-nil.
\<close>

type_synonym Header = "(string \<times> string list) list"

definition Header_Get :: "Header \<Rightarrow> string \<Rightarrow> string" where
  "Header_Get h key =
     (case map_of h (CanonicalMIMEHeaderKey key) of
        None \<Rightarrow> ''''
      | Some [] \<Rightarrow> ''''
      | Some (v # _) \<Rightarrow> v)"

definition Header_Set :: "Header \<Rightarrow> string \<Rightarrow> string \<Rightarrow> Header" where
  "Header_Set h key val = AList.update (CanonicalMIMEHeaderKey key) [val] h"

text \<open>
  A \<open>context.Context\<close> is either nil or a value that may hold the active span
  (\<open>opentracing.ContextWithSpan\<close> / \<open>SpanFromContext\<close>). A span handle names the span's
  slot in the tracer's store and carries the span's \<open>Context()\<close>.
\<close>

record 'c Span =
  spanRef :: nat
  spanCtx :: 'c

record 'c context_Context =
  activeSpan :: "'c Span option"

record 'c http_Request =
  Method :: string
  Host :: string
  RequestURI :: string
  Header :: Header
  Context :: "'c context_Context"

record 'c restful_Request =
  Request :: "'c http_Request"

section \<open>The tracer and its spans\<close>

text \<open>
  The tracer installed by \<open>InitGlobalTracer\<close> is a library object. Its codec, its parser
  of serialized contexts and its choice of identifiers for a new span are parameters of the
  model; \<open>Inject\<close> returns the carrier as the tracer left it together with its error.
\<close>

datatype error = Error string

fun errorString :: "error \<Rightarrow> string" where
  "errorString (Error msg) = msg"

datatype panic = IndexOutOfRange

record 'c Tracer =
  Extract :: "Header \<Rightarrow> error + 'c"
  Inject :: "'c \<Rightarrow> Header \<Rightarrow> Header \<times> error option"
  ContextFromString :: "string \<Rightarrow> error + 'c"
  NewContext :: "nat \<Rightarrow> 'c option \<Rightarrow> 'c"

text \<open>
  What a span has been told so far is the sequence of calls made on it through the
  \<open>opentracing.Span\<close> interface.
\<close>

datatype span_call =
    SetTagCall string string
  | LogFieldsCall "(string \<times> string) list"
  | SetBaggageItemCall string string
  | FinishCall

record 'c span_data =
  spanName :: string
  childOf :: "'c option"
  calls :: "span_call list"

datatype log_entry =
    HeaderDump string "string \<rightharpoonup> string"
  | Message string

record 'c world =
  spans :: "nat \<rightharpoonup> 'c span_data"
  nextSpan :: nat
  logged :: "log_entry list"

definition DebugLevel :: nat where
  "DebugLevel = 5"

definition logrus_Debug :: "nat \<Rightarrow> log_entry \<Rightarrow> 'c world \<Rightarrow> 'c world" where
  "logrus_Debug lvl e s = (if lvl \<ge> DebugLevel then s\<lparr>logged := logged s @ [e]\<rparr> else s)"

definition Span_call :: "'c Span \<Rightarrow> span_call \<Rightarrow> 'c world \<Rightarrow> 'c world" where
  "Span_call span c s =
     (case spans s (spanRef span) of
        None \<Rightarrow> s
      | Some d \<Rightarrow> s\<lparr>spans := (spans s)(spanRef span \<mapsto> d\<lparr>calls := calls d @ [c]\<rparr>)\<rparr>)"

definition opentracing_StartSpan ::
  "'c Tracer \<Rightarrow> string \<Rightarrow> 'c option \<Rightarrow> 'c world \<Rightarrow> 'c Span \<times> 'c world" where
  "opentracing_StartSpan tr name parent s =
     (let r = nextSpan s
      in (\<lparr>spanRef = r, spanCtx = NewContext tr r parent\<rparr>,
          s\<lparr>spans := (spans s)(r \<mapsto> \<lparr>spanName = name, childOf = parent, calls = []\<rparr>),
            nextSpan := Suc r\<rparr>))"

definition ContextWithSpan :: "'c context_Context \<Rightarrow> 'c Span \<Rightarrow> 'c context_Context" where
  "ContextWithSpan ctx span = ctx\<lparr>activeSpan := Some span\<rparr>"

definition opentracing_StartSpanFromContext ::
  "'c Tracer \<Rightarrow> 'c context_Context \<Rightarrow> string \<Rightarrow> 'c world \<Rightarrow> ('c Span \<times> 'c context_Context) \<times> 'c world" where
  "opentracing_StartSpanFromContext tr ctx name s =
     (let (span, s') = opentracing_StartSpan tr name (map_option spanCtx (activeSpan ctx)) s
      in ((span, ContextWithSpan ctx span), s'))"

definition HTTPUrl :: string where
  "HTTPUrl = ''http.url''"

definition HTTPMethod :: string where
  "HTTPMethod = ''http.method''"

section \<open>tracer.go\<close>

definition TraceIDKey :: string where
  "TraceIDKey = ''X-Ab-TraceID''"

definition forwardHeaders :: "string list" where
  "forwardHeaders =
     [''x-request-id'', ''x-ot-span-context'', ''x-cloud-trace-context'', ''traceparent'',
      ''grpc-trace-bin'']"

subsection \<open>The span helpers\<close>

definition Finish :: "'c Span option \<Rightarrow> 'c world \<Rightarrow> 'c world" where
  "Finish span s = (case span of None \<Rightarrow> s | Some sp \<Rightarrow> Span_call sp FinishCall s)"

definition AddLog :: "'c Span option \<Rightarrow> string \<Rightarrow> string \<Rightarrow> 'c world \<Rightarrow> 'c world" where
  "AddLog span key val s =
     (case span of None \<Rightarrow> s | Some sp \<Rightarrow> Span_call sp (LogFieldsCall [(key, val)]) s)"

definition AddTag :: "'c Span option \<Rightarrow> string \<Rightarrow> string \<Rightarrow> 'c world \<Rightarrow> 'c world" where
  "AddTag span key val s =
     (case span of None \<Rightarrow> s | Some sp \<Rightarrow> Span_call sp (SetTagCall key val) s)"

definition AddBaggage :: "'c Span option \<Rightarrow> string \<Rightarrow> string \<Rightarrow> 'c world \<Rightarrow> 'c world" where
  "AddBaggage span key val s =
     (case span of None \<Rightarrow> s | Some sp \<Rightarrow> Span_call sp (SetBaggageItemCall key val) s)"

definition TraceError :: "'c Span option \<Rightarrow> error option \<Rightarrow> 'c world \<Rightarrow> 'c world" where
  "TraceError span err s =
     (case (span, err) of
        (Some sp, Some e) \<Rightarrow>
          AddTag span ''error'' ''true'' (AddLog span ''error'' (errorString e) s)
      | _ \<Rightarrow> s)"

definition TraceSQLQuery :: "'c Span option \<Rightarrow> string \<Rightarrow> 'c world \<Rightarrow> 'c world" where
  "TraceSQLQuery span query s =
     (if span \<noteq> None \<and> query \<noteq> '''' then AddLog span ''SQL'' query s else s)"

subsection \<open>Starting spans\<close>

definition StartSpanFromContext ::
  "'c Tracer \<Rightarrow> 'c context_Context option \<Rightarrow> string \<Rightarrow> 'c world
     \<Rightarrow> ('c Span option \<times> 'c context_Context option) \<times> 'c world" where
  "StartSpanFromContext tr ctx operationName s =
     (case ctx of
        Some c \<Rightarrow>
          (let ((childSpan, childCtx), s') = opentracing_StartSpanFromContext tr c operationName s
           in ((Some childSpan, Some childCtx), s'))
      | None \<Rightarrow> ((None, ctx), s))"

definition StartDBSpan ::
  "'c Tracer \<Rightarrow> 'c context_Context option \<Rightarrow> string \<Rightarrow> 'c world
     \<Rightarrow> ('c Span option \<times> 'c context_Context option) \<times> 'c world" where
  "StartDBSpan tr ctx operationName s = StartSpanFromContext tr ctx (''DB-'' @ operationName) s"

definition StartChildSpan ::
  "'c Tracer \<Rightarrow> 'c Span option \<Rightarrow> string \<Rightarrow> 'c world \<Rightarrow> 'c Span option \<times> 'c world" where
  "StartChildSpan tr span name s =
     (case span of
        Some sp \<Rightarrow> (let (child, s') = opentracing_StartSpan tr name (Some (spanCtx sp)) s
                    in (Some child, s'))
      | None \<Rightarrow> (None, s))"

definition ChildSpanFromRemoteSpan ::
  "'c Tracer \<Rightarrow> 'c context_Context option \<Rightarrow> string \<Rightarrow> string \<Rightarrow> 'c world
     \<Rightarrow> ('c Span option \<times> 'c context_Context option) \<times> 'c world" where
  "ChildSpanFromRemoteSpan tr rootCtx name spanContextStr s =
     (case ContextFromString tr spanContextStr of
        Inr spanContext \<Rightarrow>
          (let (span, s') = opentracing_StartSpan tr name (Some spanContext) s
           in ((Some span, rootCtx), s'))
      | Inl err \<Rightarrow> StartSpanFromContext tr rootCtx name s)"

definition InjectSpanIntoRequest ::
  "'c Tracer \<Rightarrow> 'c Span option \<Rightarrow> 'c http_Request \<Rightarrow> 'c http_Request \<times> error option" where
  "InjectSpanIntoRequest tr span req =
     (case span of
        Some sp \<Rightarrow> (let (h, err) = Inject tr (spanCtx sp) (Header req)
                    in (req\<lparr>Header := h\<rparr>, err))
      | None \<Rightarrow> (req, None))"

definition ExtractRequestHeader :: "'c Tracer \<Rightarrow> 'c restful_Request \<Rightarrow> error + 'c" where
  "ExtractRequestHeader tr req = Extract tr (Header (Request req))"

subsection \<open>The debug dump of a header mapping\<close>

text \<open>
  The loop that \<open>InjectTrace\<close>, \<open>StartSpan\<close> and \<open>StartSpanIfParentSpanExist\<close> each run
  when the log level is at least debug. \<open>val[0]\<close> panics on an entry that has no value.
\<close>

fun headerDumpLoop :: "Header \<Rightarrow> (string \<rightharpoonup> string) \<Rightarrow> panic + (string \<rightharpoonup> string)" where
  "headerDumpLoop [] header = Inr header"
| "headerDumpLoop ((key, val) # rest) header =
     (let key' = ToLower key
      in if \<not> Contains key' ''auth''
         then (case val of
                 [] \<Rightarrow> Inl IndexOutOfRange
               | v # _ \<Rightarrow> headerDumpLoop rest (header(key' \<mapsto> v)))
         else headerDumpLoop rest header)"

definition headerDump :: "nat \<Rightarrow> string \<Rightarrow> Header \<Rightarrow> 'c world \<Rightarrow> panic + 'c world" where
  "headerDump lvl title h s =
     (if lvl \<ge> DebugLevel
      then (case headerDumpLoop h Map.empty of
              Inl p \<Rightarrow> Inl p
            | Inr header \<Rightarrow> Inr (logrus_Debug lvl (HeaderDump title header) s))
      else Inr s)"

subsection \<open>Spans for an inbound request\<close>

definition tagRequest :: "'c Span \<Rightarrow> 'c restful_Request \<Rightarrow> 'c world \<Rightarrow> 'c world" where
  "tagRequest span req s =
     (let s1 = Span_call span (SetTagCall HTTPMethod (Method (Request req))) s;
          s2 = Span_call span
                 (SetTagCall HTTPUrl (Host (Request req) @ RequestURI (Request req))) s1;
          abTraceID = Header_Get (Header (Request req)) TraceIDKey
      in if abTraceID \<noteq> '''' then AddTag (Some span) TraceIDKey abTraceID s2 else s2)"

definition StartSpan ::
  "'c Tracer \<Rightarrow> nat \<Rightarrow> 'c restful_Request \<Rightarrow> string \<Rightarrow> 'c world
     \<Rightarrow> panic + (('c Span option \<times> 'c context_Context option) \<times> 'c world)" where
  "StartSpan tr lvl req operationName s =
     (case headerDump lvl ''incoming header : '' (Header (Request req)) s of
        Inl p \<Rightarrow> Inl p
      | Inr s1 \<Rightarrow>
          (let (span, s2) =
                 (case ExtractRequestHeader tr req of
                    Inl err \<Rightarrow>
                      opentracing_StartSpan tr operationName None
                        (logrus_Debug lvl
                           (Message (''request has no tracing context: '' @ errorString err)) s1)
                  | Inr spanContext \<Rightarrow>
                      opentracing_StartSpan tr operationName (Some spanContext) s1)
           in Inr ((Some span, Some (ContextWithSpan (Context (Request req)) span)),
                   tagRequest span req s2)))"

definition StartSpanIfParentSpanExist ::
  "'c Tracer \<Rightarrow> nat \<Rightarrow> 'c restful_Request \<Rightarrow> string \<Rightarrow> 'c world
     \<Rightarrow> panic + (('c Span option \<times> 'c context_Context option) \<times> 'c world)" where
  "StartSpanIfParentSpanExist tr lvl req operationName s =
     (case headerDump lvl ''incoming header : '' (Header (Request req)) s of
        Inl p \<Rightarrow> Inl p
      | Inr s1 \<Rightarrow>
          (case ExtractRequestHeader tr req of
             Inl err \<Rightarrow> Inr ((None, None), s1)
           | Inr spanContext \<Rightarrow>
               (let (span, s2) = opentracing_StartSpan tr operationName (Some spanContext) s1
                in Inr ((Some span, Some (ContextWithSpan (Context (Request req)) span)),
                        tagRequest span req s2))))"

subsection \<open>Propagation to an outbound request\<close>

fun forwardLoop :: "string list \<Rightarrow> Header \<Rightarrow> Header \<Rightarrow> Header" where
  "forwardLoop [] incoming outgoing = outgoing"
| "forwardLoop (header # rest) incoming outgoing =
     (let val = Header_Get incoming header
      in forwardLoop rest incoming
           (if val \<noteq> '''' then Header_Set outgoing header val else outgoing))"

definition InjectTrace ::
  "'c Tracer \<Rightarrow> nat \<Rightarrow> 'c context_Context option \<Rightarrow> 'c restful_Request \<Rightarrow> 'c http_Request \<Rightarrow> 'c world
     \<Rightarrow> panic + (('c http_Request \<times> 'c Span option \<times> 'c context_Context option) \<times> 'c world)" where
  "InjectTrace tr lvl ctx incomingReq outgoingReq s =
     (case StartSpanFromContext tr ctx ''outgoing request'' s of
        ((None, newCtx), s0) \<Rightarrow> Inr ((outgoingReq, None, None), s0)
      | ((Some span, newCtx), s0) \<Rightarrow>
          (let s1 = Span_call span
                      (SetTagCall HTTPUrl (Host outgoingReq @ RequestURI outgoingReq)) s0;
               s2 = Span_call span (SetTagCall HTTPMethod (Method outgoingReq)) s1;
               h1 = fst (Inject tr (spanCtx span) (Header outgoingReq));
               h2 = forwardLoop forwardHeaders (Header (Request incomingReq)) h1
           in case headerDump lvl ''outgoing header : '' h2 s2 of
                Inl p \<Rightarrow> Inl p
              | Inr s3 \<Rightarrow>
                  (let abTraceID = Header_Get (Header (Request incomingReq)) TraceIDKey;
                       h3 = (if abTraceID \<noteq> ''''
                             then Header_Set h2 TraceIDKey abTraceID else h2)
                   in Inr ((outgoingReq\<lparr>Header := h3\<rparr>, Some span, newCtx), s3))))"

section \<open>Notions used to state the properties\<close>

text \<open>The first value stored under a key that is already canonical, as \<open>Get\<close> reads it.\<close>

definition firstValue :: "Header \<Rightarrow> string \<Rightarrow> string" where
  "firstValue h k = (case map_of h k of None \<Rightarrow> '''' | Some [] \<Rightarrow> '''' | Some (v # _) \<Rightarrow> v)"

text \<open>
  A header mapping can be dumped when each entry that the dump does not skip has a value;
  \<open>net/http\<close> never builds an entry without one, but the type allows it.
\<close>

definition dumpable :: "Header \<Rightarrow> bool" where
  "dumpable h = list_all (\<lambda>(k, vs). Contains (ToLower k) ''auth'' \<or> vs \<noteq> []) h"

text \<open>
  The assignments \<open>header[key] = val[0]\<close> of the dump, in the order of the loop, for a
  mapping that can be dumped.
\<close>

definition dumped :: "Header \<Rightarrow> (string \<times> string) list" where
  "dumped h = map (\<lambda>(k, vs). (ToLower k, case vs of [] \<Rightarrow> '''' | v # _ \<Rightarrow> v))
                (filter (\<lambda>(k, vs). \<not> Contains (ToLower k) ''auth'') h)"

text \<open>
  The redaction as the specification words it: no header whose lower-cased name contains
  \<open>auth\<close> is in the logged mapping, every other header is there under its lower-cased
  name, and it is there with its first value when no two names of the mapping differ in
  letter case only.
\<close>

definition redacted :: "Header \<Rightarrow> (string \<rightharpoonup> string) \<Rightarrow> bool" where
  "redacted h m \<longleftrightarrow>
     (\<forall>(k, vs) \<in> set h. Contains (ToLower k) ''auth'' \<longrightarrow> m (ToLower k) = None) \<and>
     dom m = {ToLower k |k vs. (k, vs) \<in> set h \<and> \<not> Contains (ToLower k) ''auth''} \<and>
     (distinct (map (ToLower \<circ> fst) h) \<longrightarrow>
        (\<forall>(k, vs) \<in> set h. \<not> Contains (ToLower k) ''auth'' \<longrightarrow>
           (\<exists>v rest. vs = v # rest \<and> m (ToLower k) = Some v)))"

text \<open>The header mappings among the entries of the log, with their titles.\<close>

fun headerDumps :: "log_entry list \<Rightarrow> (string \<times> (string \<rightharpoonup> string)) list" where
  "headerDumps [] = []"
| "headerDumps (HeaderDump title m # es) = (title, m) # headerDumps es"
| "headerDumps (Message msg # es) = headerDumps es"

section \<open>A sample tracer and sample requests\<close>

text \<open>
  A small tracer whose span context is a trace identifier carried in one header, and a few
  requests, at which the statements below are instantiated.
\<close>

definition stubTracer :: "string Tracer" where
  "stubTracer =
     \<lparr>Extract = (\<lambda>h. case map_of h ''X-B3-Traceid'' of
                        Some (v # _) \<Rightarrow> Inr v
                      | _ \<Rightarrow> Inl (Error ''SpanContext not found in Extract carrier'')),
      Inject = (\<lambda>c h. (AList.update ''X-B3-Traceid'' [c] h, None)),
      ContextFromString = (\<lambda>str. if str = '''' then Inl (Error ''empty SpanContext string'')
                                   else Inr str),
      NewContext = (\<lambda>r parent. case parent of Some p \<Rightarrow> p | None \<Rightarrow> ''root'')\<rparr>"

definition background :: "string context_Context" where
  "background = \<lparr>activeSpan = None\<rparr>"

definition sampleInbound :: "string restful_Request" where
  "sampleInbound =
     \<lparr>Request =
        \<lparr>Method = ''GET'', Host = ''svc.local'', RequestURI = ''/v1/items'',
         Header = [(''X-Request-Id'', [''abc123'', ''second'']), (''X-Ab-Traceid'', [''T1'']),
                   (''Authorization'', [''Bearer s3cret''])],
         Context = background\<rparr>\<rparr>"

definition emptyValueInbound :: "string restful_Request" where
  "emptyValueInbound =
     \<lparr>Request =
        \<lparr>Method = ''GET'', Host = ''svc.local'', RequestURI = ''/v1/items'',
         Header = [(''X-Request-Id'', [''''])],
         Context = background\<rparr>\<rparr>"

definition sampleOutbound :: "string http_Request" where
  "sampleOutbound =
     \<lparr>Method = ''POST'', Host = ''backend.local'', RequestURI = ''/v1/orders'',
      Header = [(''Content-Type'', [''application/json''])],
      Context = background\<rparr>"

definition emptyWorld :: "string world" where
  "emptyWorld = \<lparr>spans = Map.empty, nextSpan = 0, logged = []\<rparr>"

definition liveSpan :: "string Span" where
  "liveSpan = \<lparr>spanRef = 0, spanCtx = ''root''\<rparr>"

definition liveWorld :: "string world" where
  "liveWorld =
     \<lparr>spans = [0 \<mapsto> \<lparr>spanName = ''handler'', childOf = None, calls = []\<rparr>],
      nextSpan = 1, logged = []\<rparr>"

section \<open>The span helpers\<close>

text \<open>
  Claim C4, as stated, fails: with a live span and an empty value, \<open>AddTag\<close>, \<open>AddLog\<close>
  and \<open>AddBaggage\<close> still make their call on the span, which records a tag, a log field
  and a baggage item with the empty value. The span of \<open>liveWorld\<close> had no call before.
\<close>

theorem empty_value_recorded:
  "map_option calls (spans (AddTag (Some liveSpan) ''key'' '''' liveWorld) 0) =
     Some [SetTagCall ''key'' ''''] \<and>
   map_option calls (spans (AddLog (Some liveSpan) ''key'' '''' liveWorld) 0) =
     Some [LogFieldsCall [(''key'', '''')]] \<and>
   map_option calls (spans (AddBaggage (Some liveSpan) ''key'' '''' liveWorld) 0) =
     Some [SetBaggageItemCall ''key'' ''''] \<and>
   map_option calls (spans liveWorld 0) = Some []"
  by (simp add: AddTag_def AddLog_def AddBaggage_def Span_call_def liveSpan_def liveWorld_def)

text \<open>
  Claim C4, amended: with an absent span each of \<open>AddTag\<close>, \<open>AddLog\<close>, \<open>AddBaggage\<close>,
  \<open>Finish\<close>, \<open>TraceError\<close> and \<open>TraceSQLQuery\<close> leaves the spans and the log as they
  were, whatever its other arguments; with any span, so do \<open>TraceError\<close> on an absent
  error and \<open>TraceSQLQuery\<close> on an empty query. The helpers are total functions of the
  state: none has a failing branch.
\<close>

theorem helpers_noop:
  "AddTag None key val s = s \<and> AddLog None key val s = s \<and> AddBaggage None key val s = s \<and>
   Finish None s = s \<and> TraceError None err s = s \<and> TraceSQLQuery None query s = s \<and>
   TraceError span None s = s \<and> TraceSQLQuery span '''' s = s"
  by (simp add: AddTag_def AddLog_def AddBaggage_def Finish_def TraceError_def TraceSQLQuery_def
      split: option.splits)

text \<open>
  Claim C5: on a live span and a present error, \<open>TraceError\<close> makes exactly two calls on
  the span, after those already made: one log field \<open>error\<close> holding the error's message
  and one tag \<open>error\<close> with the value \<open>true\<close>; the rest of the state is untouched. With
  an absent error, or an absent span, nothing changes. \<open>TraceError\<close> has no failing
  branch, whatever calls the span has received before.
\<close>

theorem TraceError_records:
  "spans s (spanRef sp) = Some d \<Longrightarrow>
     TraceError (Some sp) (Some e) s =
       s\<lparr>spans := (spans s)(spanRef sp \<mapsto>
            d\<lparr>calls := calls d @ [LogFieldsCall [(''error'', errorString e)],
                                   SetTagCall ''error'' ''true'']\<rparr>)\<rparr> \<and>
     TraceError (Some sp) None s = s \<and> TraceError None (Some e) s = s"
  by (simp add: TraceError_def AddTag_def AddLog_def Span_call_def)

theorem TraceError_records_witness:
  "spans liveWorld (spanRef liveSpan) =
     Some \<lparr>spanName = ''handler'', childOf = None, calls = []\<rparr> \<and>
   spans (TraceError (Some liveSpan) (Some (Error ''boom'')) liveWorld) 0 =
     Some \<lparr>spanName = ''handler'', childOf = None,
           calls = [LogFieldsCall [(''error'', ''boom'')], SetTagCall ''error'' ''true'']\<rparr>"
proof -
  have live: "spans liveWorld (spanRef liveSpan) =
                Some \<lparr>spanName = ''handler'', childOf = None, calls = []\<rparr>"
    by (simp add: liveWorld_def liveSpan_def)
  from TraceError_records[OF live, of "Error ''boom''"] live show ?thesis
    by (simp add: liveSpan_def)
qed

section \<open>Spans from a context or a serialized context\<close>

text \<open>
  Claim C9: on a nil context \<open>StartSpanFromContext\<close> returns an absent span and the nil
  context it was given, and the state is unchanged, so no span was started; \<open>StartDBSpan\<close>
  does the same, and so does \<open>ChildSpanFromRemoteSpan\<close> when the serialized context does
  not parse.
\<close>

theorem StartSpanFromContext_nil:
  "StartSpanFromContext tr None name s = ((None, None), s) \<and>
   StartDBSpan tr None name s = ((None, None), s) \<and>
   (ContextFromString tr str = Inl e \<longrightarrow>
      ChildSpanFromRemoteSpan tr None name str s = ((None, None), s))"
  by (simp add: StartSpanFromContext_def StartDBSpan_def ChildSpanFromRemoteSpan_def)

theorem StartSpanFromContext_nil_witness:
  "ContextFromString stubTracer '''' = Inl (Error ''empty SpanContext string'') \<and>
   ChildSpanFromRemoteSpan stubTracer None ''job'' '''' emptyWorld = ((None, None), emptyWorld)"
proof -
  have parse: "ContextFromString stubTracer '''' = Inl (Error ''empty SpanContext string'')"
    by (simp add: stubTracer_def)
  from StartSpanFromContext_nil[of stubTracer "''job''" emptyWorld "''''"
      "Error ''empty SpanContext string''"] parse
  show ?thesis by simp
qed

text \<open>
  Claim C7: when the serialized context parses, \<open>ChildSpanFromRemoteSpan\<close> returns a new
  span started as a child of the parsed context, with the context it was given. When it
  does not parse, the result is that of \<open>StartSpanFromContext\<close> on the given context: for
  a context that is not nil, a new span that is a child of the context's active span (a
  root span if there is none) and the context holding the new span. No error is returned
  in either case.
\<close>

theorem ChildSpanFromRemoteSpan_cases:
  "(ContextFromString tr str = Inr sc \<longrightarrow>
      (\<exists>span s'. ChildSpanFromRemoteSpan tr rootCtx name str s = ((Some span, rootCtx), s') \<and>
         spans s' (spanRef span) = Some \<lparr>spanName = name, childOf = Some sc, calls = []\<rparr>)) \<and>
   (ContextFromString tr str = Inl e \<longrightarrow>
      ChildSpanFromRemoteSpan tr rootCtx name str s = StartSpanFromContext tr rootCtx name s \<and>
      (\<forall>c. rootCtx = Some c \<longrightarrow>
         (\<exists>span s'. ChildSpanFromRemoteSpan tr rootCtx name str s =
                      ((Some span, Some (ContextWithSpan c span)), s') \<and>
            spans s' (spanRef span) =
              Some \<lparr>spanName = name, childOf = map_option spanCtx (activeSpan c),
                    calls = []\<rparr>)))"
  by (auto simp: ChildSpanFromRemoteSpan_def StartSpanFromContext_def
      opentracing_StartSpanFromContext_def opentracing_StartSpan_def Let_def)

theorem ChildSpanFromRemoteSpan_cases_witness:
  "ContextFromString stubTracer ''abc'' = Inr ''abc'' \<and>
   (\<exists>span s'. ChildSpanFromRemoteSpan stubTracer None ''job'' ''abc'' emptyWorld =
                 ((Some span, None), s') \<and>
      spans s' (spanRef span) =
        Some \<lparr>spanName = ''job'', childOf = Some ''abc'', calls = []\<rparr>) \<and>
   ContextFromString stubTracer '''' = Inl (Error ''empty SpanContext string'') \<and>
   (\<exists>span s'. ChildSpanFromRemoteSpan stubTracer (Some background) ''job'' '''' emptyWorld =
                 ((Some span, Some (ContextWithSpan background span)), s') \<and>
      spans s' (spanRef span) = Some \<lparr>spanName = ''job'', childOf = None, calls = []\<rparr>)"
proof -
  have ok: "ContextFromString stubTracer ''abc'' = Inr ''abc''"
    by (simp add: stubTracer_def)
  have bad: "ContextFromString stubTracer '''' = Inl (Error ''empty SpanContext string'')"
    by (simp add: stubTracer_def)
  have bg: "map_option spanCtx (activeSpan background) = None"
    by (simp add: background_def)
  from ChildSpanFromRemoteSpan_cases[of stubTracer "''abc''" "''abc''" None "''job''" emptyWorld]
    ok
  have 1: "\<exists>span s'. ChildSpanFromRemoteSpan stubTracer None ''job'' ''abc'' emptyWorld =
                 ((Some span, None), s') \<and>
      spans s' (spanRef span) = Some \<lparr>spanName = ''job'', childOf = Some ''abc'', calls = []\<rparr>"
    by blast
  from ChildSpanFromRemoteSpan_cases[of stubTracer "''''" _ "Some background" "''job''"
      emptyWorld "Error ''empty SpanContext string''"] bad
  obtain span s' where
    "ChildSpanFromRemoteSpan stubTracer (Some background) ''job'' '''' emptyWorld =
       ((Some span, Some (ContextWithSpan background span)), s')"
    "spans s' (spanRef span) =
       Some \<lparr>spanName = ''job'', childOf = map_option spanCtx (activeSpan background),
             calls = []\<rparr>"
    by blast
  with bg
  have 2: "\<exists>span s'. ChildSpanFromRemoteSpan stubTracer (Some background) ''job'' '''' emptyWorld =
                 ((Some span, Some (ContextWithSpan background span)), s') \<and>
      spans s' (spanRef span) = Some \<lparr>spanName = ''job'', childOf = None, calls = []\<rparr>"
    by auto
  from ok bad 1 2 show ?thesis by blast
qed

text \<open>
  \<open>InjectSpanIntoRequest\<close> on a present span followed by \<open>ExtractRequestHeader\<close> on
  the same request is the tracer's \<open>Extract\<close> after its \<open>Inject\<close> on the request's
  headers, whatever error the injection reported; which context comes back is decided by
  the tracer's codec alone.
\<close>

lemma inject_then_extract:
  "InjectSpanIntoRequest tr (Some sp) req = (req', err) \<Longrightarrow>
     ExtractRequestHeader tr \<lparr>Request = req'\<rparr> =
       Extract tr (fst (Inject tr (spanCtx sp) (Header req)))"
  by (auto simp: InjectSpanIntoRequest_def ExtractRequestHeader_def split: prod.splits)

section \<open>Header names and the forwarding loop\<close>

lemma canon_TraceIDKey: "CanonicalMIMEHeaderKey TraceIDKey = ''X-Ab-Traceid''"
  by code_simp

lemma canon_forwardHeaders:
  "map CanonicalMIMEHeaderKey forwardHeaders =
     [''X-Request-Id'', ''X-Ot-Span-Context'', ''X-Cloud-Trace-Context'', ''Traceparent'',
      ''Grpc-Trace-Bin'']"
  by code_simp

lemma canon_TraceIDKey_not_forwarded:
  "CanonicalMIMEHeaderKey TraceIDKey \<notin> CanonicalMIMEHeaderKey ` set forwardHeaders"
proof -
  have "CanonicalMIMEHeaderKey ` set forwardHeaders = set (map CanonicalMIMEHeaderKey forwardHeaders)"
    by simp
  then show ?thesis
    by (simp only: canon_forwardHeaders canon_TraceIDKey) simp
qed

lemma Header_Get_firstValue: "Header_Get h key = firstValue h (CanonicalMIMEHeaderKey key)"
  by (simp add: Header_Get_def firstValue_def)

lemma map_of_Header_Set:
  "map_of (Header_Set h key v) = (map_of h)(CanonicalMIMEHeaderKey key \<mapsto> [v])"
  by (simp add: Header_Set_def update_conv')

lemma map_of_forwardLoop:
  "map_of (forwardLoop hs inc out) k =
     (if k \<in> CanonicalMIMEHeaderKey ` set hs \<and> firstValue inc k \<noteq> ''''
      then Some [firstValue inc k] else map_of out k)"
proof (induction hs arbitrary: out)
  case Nil
  then show ?case by simp
next
  case (Cons h hs)
  then show ?case
    by (auto simp: Let_def map_of_Header_Set Header_Get_firstValue)
qed

lemma keys_forwardLoop:
  "fst ` set (forwardLoop hs inc out) =
     fst ` set out \<union> {CanonicalMIMEHeaderKey h |h. h \<in> set hs \<and> Header_Get inc h \<noteq> ''''}"
proof -
  have "dom (map_of (forwardLoop hs inc out)) =
          dom (map_of out) \<union> {CanonicalMIMEHeaderKey h |h. h \<in> set hs \<and> Header_Get inc h \<noteq> ''''}"
    by (auto simp: dom_def map_of_forwardLoop Header_Get_firstValue split: if_splits)
  then show ?thesis by (simp add: dom_map_of_conv_image_fst)
qed

section \<open>The debug dump\<close>

lemma dumpable_Header_Set: "dumpable h \<Longrightarrow> dumpable (Header_Set h key v)"
  by (induction h) (auto simp: dumpable_def Header_Set_def)

lemma dumpable_forwardLoop: "dumpable out \<Longrightarrow> dumpable (forwardLoop hs inc out)"
  by (induction hs arbitrary: out) (auto simp: Let_def dumpable_Header_Set)

lemma headerDumpLoop_exact:
  "headerDumpLoop h m0 = Inr m \<Longrightarrow> m = m0 ++ map_of (rev (dumped h))"
proof (induction h arbitrary: m0)
  case Nil
  then show ?case by (simp add: dumped_def)
next
  case (Cons e h)
  obtain k vs where e: "e = (k, vs)" by (cases e)
  show ?case
  proof (cases "Contains (ToLower k) ''auth''")
    case True
    with Cons e show ?thesis by (simp add: dumped_def)
  next
    case False
    with Cons.prems e obtain v rest where vs: "vs = v # rest"
      by (cases vs) auto
    with Cons.prems e False have "headerDumpLoop h (m0(ToLower k \<mapsto> v)) = Inr m" by simp
    from Cons.IH[OF this] have m: "m = m0(ToLower k \<mapsto> v) ++ map_of (rev (dumped h))" .
    have d: "dumped (e # h) = (ToLower k, v) # dumped h"
      using e False vs by (simp add: dumped_def)
    have "m0 ++ map_of (rev (dumped (e # h))) =
            m0 ++ ([ToLower k \<mapsto> v] ++ map_of (rev (dumped h)))"
      by (simp add: d)
    also have "\<dots> = (m0 ++ [ToLower k \<mapsto> v]) ++ map_of (rev (dumped h))"
      by (simp only: map_add_assoc)
    also have "\<dots> = m0(ToLower k \<mapsto> v) ++ map_of (rev (dumped h))"
      by simp
    finally show ?thesis using m by simp
  qed
qed

lemma headerDumpLoop_returns: "(\<exists>m. headerDumpLoop h m0 = Inr m) \<longleftrightarrow> dumpable h"
proof (induction h arbitrary: m0)
  case Nil
  then show ?case by (simp add: dumpable_def)
next
  case (Cons e h)
  obtain k vs where e: "e = (k, vs)" by (cases e)
  show ?case
  proof (cases "Contains (ToLower k) ''auth''")
    case True
    then have "headerDumpLoop (e # h) m0 = headerDumpLoop h m0"
      and "dumpable (e # h) = dumpable h"
      by (simp_all add: e dumpable_def)
    with Cons.IH[of m0] show ?thesis by simp
  next
    case False
    show ?thesis
    proof (cases vs)
      case Nil
      with False show ?thesis by (simp add: e dumpable_def)
    next
      case (Cons v rest)
      with False have "headerDumpLoop (e # h) m0 = headerDumpLoop h (m0(ToLower k \<mapsto> v))"
        and "dumpable (e # h) = dumpable h"
        by (simp_all add: e dumpable_def)
      with Cons.IH[of "m0(ToLower k \<mapsto> v)"] show ?thesis by (simp only:)
    qed
  qed
qed

lemma headerDumpLoop_panics: "\<not> dumpable h \<Longrightarrow> headerDumpLoop h m0 = Inl IndexOutOfRange"
proof -
  assume "\<not> dumpable h"
  then have "\<nexists>m. headerDumpLoop h m0 = Inr m" by (simp add: headerDumpLoop_returns)
  then show ?thesis
  proof (cases "headerDumpLoop h m0")
    case (Inl p)
    then show ?thesis by (cases p) simp
  next
    case (Inr m)
    with \<open>\<nexists>m. headerDumpLoop h m0 = Inr m\<close> show ?thesis by simp
  qed
qed

lemma headerDump_eq:
  "headerDump lvl title h s =
     (if lvl \<ge> DebugLevel
      then (if dumpable h
            then Inr (s\<lparr>logged := logged s @ [HeaderDump title (map_of (rev (dumped h)))]\<rparr>)
            else Inl IndexOutOfRange)
      else Inr s)"
proof (cases "dumpable h")
  case True
  then obtain m where m: "headerDumpLoop h Map.empty = Inr m"
    using headerDumpLoop_returns by blast
  from headerDumpLoop_exact[OF m] have "m = map_of (rev (dumped h))" by simp
  with m True show ?thesis by (simp add: headerDump_def logrus_Debug_def)
next
  case False
  then show ?thesis by (simp add: headerDump_def headerDumpLoop_panics)
qed

lemma keys_dumped:
  "fst ` set (dumped h) = {ToLower k |k vs. (k, vs) \<in> set h \<and> \<not> Contains (ToLower k) ''auth''}"
  by (force simp: dumped_def image_iff)

lemma redacted_dumped:
  assumes "dumpable h"
  shows "redacted h (map_of (rev (dumped h)))"
proof -
  let ?m = "map_of (rev (dumped h))"
  have dom: "dom ?m = {ToLower k |k vs. (k, vs) \<in> set h \<and> \<not> Contains (ToLower k) ''auth''}"
    by (simp add: dom_map_of_conv_image_fst keys_dumped)
  have omitted: "?m (ToLower k) = None" if "Contains (ToLower k) ''auth''" for k
  proof -
    from that dom have "ToLower k \<notin> dom ?m" by auto
    then show ?thesis by blast
  qed
  have present: "\<exists>v rest. vs = v # rest \<and> ?m (ToLower k) = Some v"
    if d: "distinct (map (ToLower \<circ> fst) h)" and kv: "(k, vs) \<in> set h"
      and na: "\<not> Contains (ToLower k) ''auth''" for k vs
  proof -
    from assms kv na have "vs \<noteq> []"
      by (auto simp: dumpable_def list_all_iff)
    then obtain v rest where vs: "vs = v # rest" by (cases vs) auto
    have "map fst (dumped h) =
            map (ToLower \<circ> fst) (filter (\<lambda>(k, vs). \<not> Contains (ToLower k) ''auth'') h)"
      by (simp add: dumped_def comp_def case_prod_unfold)
    with d have "distinct (map fst (rev (dumped h)))"
      by (simp add: distinct_map_filter rev_map[symmetric])
    moreover from kv na vs have "(ToLower k, v) \<in> set (rev (dumped h))"
      by (force simp: dumped_def)
    ultimately have "?m (ToLower k) = Some v" by (rule map_of_is_SomeI)
    with vs show ?thesis by simp
  qed
  from dom omitted present show ?thesis
    unfolding redacted_def by blast
qed

lemma headerDumps_append: "headerDumps (xs @ ys) = headerDumps xs @ headerDumps ys"
  by (induction xs rule: headerDumps.induct) simp_all

lemma logged_Span_call: "logged (Span_call sp c s) = logged s"
  by (simp add: Span_call_def split: option.splits)

lemma logged_AddTag: "logged (AddTag sp k v s) = logged s"
  by (simp add: AddTag_def logged_Span_call split: option.splits)

lemma logged_tagRequest: "logged (tagRequest sp req s) = logged s"
  by (simp add: tagRequest_def Let_def logged_Span_call logged_AddTag)

section \<open>What the request operations return\<close>


lemma InjectTrace_Inr_D:
  assumes "InjectTrace tr lvl (Some c) incomingReq outgoingReq s = Inr ((req', sp, ctx'), s')"
  shows "\<exists>span h2. sp = Some span \<and> ctx' = Some (ContextWithSpan c span) \<and>
           h2 = forwardLoop forwardHeaders (Header (Request incomingReq))
                  (fst (Inject tr (spanCtx span) (Header outgoingReq))) \<and>
           Header req' =
             (if Header_Get (Header (Request incomingReq)) TraceIDKey \<noteq> ''''
              then Header_Set h2 TraceIDKey (Header_Get (Header (Request incomingReq)) TraceIDKey)
              else h2) \<and>
           (lvl \<ge> DebugLevel \<longrightarrow> dumpable h2 \<and>
              logged s' = logged s @ [HeaderDump ''outgoing header : '' (map_of (rev (dumped h2)))])"
  using assms
  by (auto simp: InjectTrace_def StartSpanFromContext_def opentracing_StartSpanFromContext_def
      opentracing_StartSpan_def Let_def headerDump_eq logged_Span_call
      split: if_splits)

lemma InjectTrace_returns:
  assumes "lvl < DebugLevel \<or>
           dumpable (fst (Inject tr (NewContext tr (nextSpan s) (map_option spanCtx (activeSpan c)))
                            (Header outgoingReq)))"
  shows "\<exists>r. InjectTrace tr lvl (Some c) incomingReq outgoingReq s = Inr r"
  using assms
  by (auto simp: InjectTrace_def StartSpanFromContext_def opentracing_StartSpanFromContext_def
      opentracing_StartSpan_def Let_def headerDump_eq dumpable_forwardLoop)

lemma InjectTrace_nil:
  "InjectTrace tr lvl None incomingReq outgoingReq s = Inr ((outgoingReq, None, None), s)"
  by (simp add: InjectTrace_def StartSpanFromContext_def)

lemma StartSpan_Inr_D:
  assumes "StartSpan tr lvl req name s = Inr (r, s')" and "lvl \<ge> DebugLevel"
  shows "dumpable (Header (Request req)) \<and>
         headerDumps (logged s') =
           headerDumps (logged s) @
             [(''incoming header : '', map_of (rev (dumped (Header (Request req)))))]"
  using assms
  by (auto simp: StartSpan_def headerDump_eq opentracing_StartSpan_def Let_def logged_tagRequest
      logrus_Debug_def headerDumps_append split: if_splits sum.splits)

lemma StartSpanIfParentSpanExist_Inr_D:
  assumes "StartSpanIfParentSpanExist tr lvl req name s = Inr (r, s')" and "lvl \<ge> DebugLevel"
  shows "dumpable (Header (Request req)) \<and>
         headerDumps (logged s') =
           headerDumps (logged s) @
             [(''incoming header : '', map_of (rev (dumped (Header (Request req)))))]"
  using assms
  by (auto simp: StartSpanIfParentSpanExist_def headerDump_eq opentracing_StartSpan_def Let_def
      logged_tagRequest headerDumps_append split: if_splits sum.splits)

lemma StartSpan_panics:
  "lvl \<ge> DebugLevel \<Longrightarrow> \<not> dumpable (Header (Request req)) \<Longrightarrow>
     StartSpan tr lvl req name s = Inl IndexOutOfRange \<and>
     StartSpanIfParentSpanExist tr lvl req name s = Inl IndexOutOfRange"
  by (simp add: StartSpan_def StartSpanIfParentSpanExist_def headerDump_eq)

lemma StartSpan_returns:
  "lvl < DebugLevel \<or> dumpable (Header (Request req)) \<Longrightarrow>
     \<exists>r s'. StartSpan tr lvl req name s = Inr (r, s')"
  by (auto simp: StartSpan_def headerDump_eq Let_def split: sum.splits prod.splits)

lemma StartSpanIfParentSpanExist_returns:
  "lvl < DebugLevel \<or> dumpable (Header (Request req)) \<Longrightarrow>
     \<exists>r s'. StartSpanIfParentSpanExist tr lvl req name s = Inr (r, s')"
  by (auto simp: StartSpanIfParentSpanExist_def headerDump_eq Let_def
      split: sum.splits prod.splits)

section \<open>The sample requests\<close>

lemma canon_samples:
  "CanonicalMIMEHeaderKey ''x-request-id'' = ''X-Request-Id''"
  "CanonicalMIMEHeaderKey ''x-ot-span-context'' = ''X-Ot-Span-Context''"
  "CanonicalMIMEHeaderKey ''x-cloud-trace-context'' = ''X-Cloud-Trace-Context''"
  "CanonicalMIMEHeaderKey ''traceparent'' = ''Traceparent''"
  "CanonicalMIMEHeaderKey ''grpc-trace-bin'' = ''Grpc-Trace-Bin''"
  "CanonicalMIMEHeaderKey ''X-Ab-TraceID'' = ''X-Ab-Traceid''"
  by code_simp+

lemma lower_samples:
  "ToLower ''X-Request-Id'' = ''x-request-id''"
  "ToLower ''X-Ab-Traceid'' = ''x-ab-traceid''"
  "ToLower ''Authorization'' = ''authorization''"
  "ToLower ''Content-Type'' = ''content-type''"
  "ToLower ''X-B3-Traceid'' = ''x-b3-traceid''"
  by code_simp+

lemma auth_samples:
  "\<not> Contains ''x-request-id'' ''auth''"
  "\<not> Contains ''x-ab-traceid'' ''auth''"
  "Contains ''authorization'' ''auth''"
  "\<not> Contains ''content-type'' ''auth''"
  "\<not> Contains ''x-b3-traceid'' ''auth''"
  by code_simp+

lemma sample_forwarded:
  "forwardLoop forwardHeaders (Header (Request sampleInbound))
     (fst (Inject stubTracer c (Header sampleOutbound))) =
   [(''Content-Type'', [''application/json'']), (''X-B3-Traceid'', [c]),
    (''X-Request-Id'', [''abc123''])]"
  by (simp add: forwardHeaders_def sampleInbound_def sampleOutbound_def stubTracer_def
      Header_Get_def Header_Set_def canon_samples)

lemma sample_inbound_dumpable: "dumpable (Header (Request sampleInbound))"
  by (simp add: dumpable_def sampleInbound_def lower_samples auth_samples)

lemma sample_injected_dumpable: "dumpable (fst (Inject stubTracer c (Header sampleOutbound)))"
  by (simp add: dumpable_def sampleOutbound_def stubTracer_def lower_samples auth_samples)

lemma sample_run:
  "\<exists>req' sp ctx' s'.
     InjectTrace stubTracer 5 (Some background) sampleInbound sampleOutbound emptyWorld =
       Inr ((req', sp, ctx'), s')"
  using InjectTrace_returns[of 5 stubTracer emptyWorld background sampleOutbound sampleInbound]
    sample_injected_dumpable by (metis prod_cases3 surj_pair)

section \<open>Propagation to an outbound request\<close>

text \<open>
  Claim C1, as stated, fails: \<open>InjectTrace\<close> returns early when
  \<open>StartSpanFromContext\<close> gives no span, which is the case of a nil context. The inbound
  request carries \<open>X-Ab-TraceID: T1\<close>, and the outgoing request comes back as it was,
  without that header.
\<close>

theorem InjectTrace_nil_context_drops_trace_id:
  "Header_Get (Header (Request sampleInbound)) TraceIDKey = ''T1'' \<and>
   InjectTrace stubTracer 5 None sampleInbound sampleOutbound emptyWorld =
     Inr ((sampleOutbound, None, None), emptyWorld) \<and>
   Header_Get (Header sampleOutbound) TraceIDKey = ''''"
  by (simp add: InjectTrace_nil Header_Get_def canon_TraceIDKey sampleInbound_def
      sampleOutbound_def)

text \<open>
  Claim C1, amended: for a context that is not nil, whether or not it holds an active
  span, and an inbound request whose \<open>X-Ab-TraceID\<close> header has a first value \<open>v\<close>
  that is not empty, the request returned by \<open>InjectTrace\<close> carries \<open>X-Ab-TraceID\<close>
  with \<open>v\<close> as its only value. On a nil context the outgoing request is returned as it
  was given. (\<open>InjectTrace\<close> returns unless the debug dump meets a header without a
  value; see \<open>InjectTrace_returns\<close>.)
\<close>

theorem InjectTrace_trace_id:
  assumes "Header_Get (Header (Request incomingReq)) TraceIDKey = v" and "v \<noteq> ''''"
    and "InjectTrace tr lvl (Some c) incomingReq outgoingReq s = Inr ((req', sp, ctx'), s')"
  shows "map_of (Header req') (CanonicalMIMEHeaderKey TraceIDKey) = Some [v] \<and>
         Header_Get (Header req') TraceIDKey = v \<and>
         InjectTrace tr lvl None incomingReq outgoingReq s = Inr ((outgoingReq, None, None), s)"
proof -
  from InjectTrace_Inr_D[OF assms(3)] assms(1,2) obtain h2 where
    "Header req' = Header_Set h2 TraceIDKey v" by auto
  then have "map_of (Header req') (CanonicalMIMEHeaderKey TraceIDKey) = Some [v]"
    by (simp add: map_of_Header_Set)
  then show ?thesis
    by (simp add: Header_Get_def InjectTrace_nil)
qed

theorem InjectTrace_trace_id_witness:
  "Header_Get (Header (Request sampleInbound)) TraceIDKey = ''T1'' \<and>
   (\<exists>req' sp ctx' s'.
      InjectTrace stubTracer 5 (Some background) sampleInbound sampleOutbound emptyWorld =
        Inr ((req', sp, ctx'), s') \<and>
      map_of (Header req') ''X-Ab-Traceid'' = Some [''T1''])"
proof -
  have get: "Header_Get (Header (Request sampleInbound)) TraceIDKey = ''T1''"
    by (simp add: Header_Get_def canon_TraceIDKey sampleInbound_def)
  have ne: "''T1'' \<noteq> ''''" by simp
  obtain req' sp ctx' s' where
    run: "InjectTrace stubTracer 5 (Some background) sampleInbound sampleOutbound emptyWorld =
            Inr ((req', sp, ctx'), s')"
    using InjectTrace_returns[of 5 stubTracer emptyWorld background sampleOutbound sampleInbound]
      sample_injected_dumpable by (metis prod_cases3 surj_pair)
  from InjectTrace_trace_id[OF get ne run] run get show ?thesis
    by (auto simp: canon_TraceIDKey)
qed

text \<open>
  Claim C2, as stated, fails: the inbound request carries the allow-listed header
  \<open>X-Request-Id\<close> with an empty value, and the request returned by \<open>InjectTrace\<close>
  has only its own \<open>Content-Type\<close> and the header injected by the tracer.
\<close>

theorem InjectTrace_omits_empty_valued_header:
  "map_of (Header (Request emptyValueInbound)) (CanonicalMIMEHeaderKey ''x-request-id'') =
     Some [''''] \<and>
   ''x-request-id'' \<in> set forwardHeaders \<and>
   InjectTrace stubTracer 4 (Some background) emptyValueInbound sampleOutbound emptyWorld =
     Inr ((sampleOutbound\<lparr>Header := [(''Content-Type'', [''application/json'']),
                                       (''X-B3-Traceid'', [''root''])]\<rparr>,
           Some \<lparr>spanRef = 0, spanCtx = ''root''\<rparr>,
           Some \<lparr>activeSpan = Some \<lparr>spanRef = 0, spanCtx = ''root''\<rparr>\<rparr>),
          \<lparr>spans = [0 \<mapsto> \<lparr>spanName = ''outgoing request'', childOf = None,
                            calls = [SetTagCall ''http.url'' ''backend.local/v1/orders'',
                                     SetTagCall ''http.method'' ''POST'']\<rparr>],
           nextSpan = 1, logged = []\<rparr>)"
  by (simp add: InjectTrace_def StartSpanFromContext_def opentracing_StartSpanFromContext_def
      opentracing_StartSpan_def ContextWithSpan_def Span_call_def headerDump_def DebugLevel_def
      forwardHeaders_def emptyValueInbound_def sampleOutbound_def stubTracer_def background_def
      emptyWorld_def Header_Get_def Header_Set_def canon_samples HTTPUrl_def HTTPMethod_def
      TraceIDKey_def Let_def)

text \<open>
  Claim C2, amended: for a context that is not nil, the header names of the request
  returned by \<open>InjectTrace\<close> are exactly those of the outgoing request after the tracer's
  injection, together with each name among the allow-list and \<open>X-Ab-TraceID\<close> whose
  first inbound value is not empty; each allow-listed header that has such a value reads
  back that value; and every header outside the allow-list and \<open>X-Ab-TraceID\<close> is as the
  injection left it.
\<close>

theorem InjectTrace_allow_list:
  assumes "InjectTrace tr lvl (Some c) incomingReq outgoingReq s = Inr ((req', sp, ctx'), s')"
  shows "\<exists>span. sp = Some span \<and>
           fst ` set (Header req') =
             fst ` set (fst (Inject tr (spanCtx span) (Header outgoingReq))) \<union>
             {CanonicalMIMEHeaderKey h |h. h \<in> set (TraceIDKey # forwardHeaders) \<and>
                Header_Get (Header (Request incomingReq)) h \<noteq> ''''} \<and>
           (\<forall>h \<in> set forwardHeaders. Header_Get (Header (Request incomingReq)) h \<noteq> '''' \<longrightarrow>
              Header_Get (Header req') h = Header_Get (Header (Request incomingReq)) h) \<and>
           (\<forall>k. k \<notin> CanonicalMIMEHeaderKey ` set (TraceIDKey # forwardHeaders) \<longrightarrow>
              map_of (Header req') k =
                map_of (fst (Inject tr (spanCtx span) (Header outgoingReq))) k)"
proof -
  let ?inH = "Header (Request incomingReq)"
  from InjectTrace_Inr_D[OF assms] obtain span h2 where
    sp: "sp = Some span"
    and h2: "h2 = forwardLoop forwardHeaders ?inH (fst (Inject tr (spanCtx span) (Header outgoingReq)))"
    and req': "Header req' = (if Header_Get ?inH TraceIDKey \<noteq> ''''
                  then Header_Set h2 TraceIDKey (Header_Get ?inH TraceIDKey) else h2)"
    by blast
  let ?inj = "fst (Inject tr (spanCtx span) (Header outgoingReq))"
  have m: "map_of (Header req') k =
             (if k = CanonicalMIMEHeaderKey TraceIDKey \<and> Header_Get ?inH TraceIDKey \<noteq> ''''
              then Some [Header_Get ?inH TraceIDKey]
              else if k \<in> CanonicalMIMEHeaderKey ` set forwardHeaders \<and> firstValue ?inH k \<noteq> ''''
              then Some [firstValue ?inH k] else map_of ?inj k)" for k
    by (simp add: req' h2 map_of_Header_Set map_of_forwardLoop)
  have "dom (map_of (Header req')) = dom (map_of ?inj) \<union>
          {CanonicalMIMEHeaderKey h |h. h \<in> set (TraceIDKey # forwardHeaders) \<and>
                Header_Get ?inH h \<noteq> ''''}"
    by (auto simp: dom_def m Header_Get_firstValue split: if_splits)
  then have keys: "fst ` set (Header req') = fst ` set ?inj \<union>
          {CanonicalMIMEHeaderKey h |h. h \<in> set (TraceIDKey # forwardHeaders) \<and>
                Header_Get ?inH h \<noteq> ''''}"
    by (simp only: dom_map_of_conv_image_fst)
  have vals: "Header_Get (Header req') h = Header_Get ?inH h"
    if "h \<in> set forwardHeaders" "Header_Get ?inH h \<noteq> ''''" for h
  proof -
    from that(1) canon_TraceIDKey_not_forwarded
    have "CanonicalMIMEHeaderKey h \<noteq> CanonicalMIMEHeaderKey TraceIDKey" by (metis imageI)
    with that have "map_of (Header req') (CanonicalMIMEHeaderKey h) =
                      Some [firstValue ?inH (CanonicalMIMEHeaderKey h)]"
      by (simp add: m Header_Get_firstValue)
    then have "firstValue (Header req') (CanonicalMIMEHeaderKey h) =
                 firstValue ?inH (CanonicalMIMEHeaderKey h)"
      by (simp add: firstValue_def[of "Header req'"])
    then show ?thesis by (simp add: Header_Get_firstValue)
  qed
  have rest: "map_of (Header req') k = map_of ?inj k"
    if "k \<notin> CanonicalMIMEHeaderKey ` set (TraceIDKey # forwardHeaders)" for k
    using that by (simp add: m)
  from sp keys vals rest show ?thesis by blast
qed

theorem InjectTrace_allow_list_witness:
  "\<exists>req' sp ctx' s'.
     InjectTrace stubTracer 5 (Some background) sampleInbound sampleOutbound emptyWorld =
       Inr ((req', sp, ctx'), s') \<and>
     Header_Get (Header req') ''x-request-id'' = ''abc123'' \<and>
     map_of (Header req') ''Content-Type'' = Some [''application/json''] \<and>
     map_of (Header req') ''Authorization'' = None"
proof -
  from sample_run obtain req' sp ctx' s' where
    run: "InjectTrace stubTracer 5 (Some background) sampleInbound sampleOutbound emptyWorld =
            Inr ((req', sp, ctx'), s')"
    by blast
  have fwd: "''x-request-id'' \<in> set forwardHeaders" by (simp add: forwardHeaders_def)
  have get: "Header_Get (Header (Request sampleInbound)) ''x-request-id'' = ''abc123''"
    by (simp add: Header_Get_def canon_samples sampleInbound_def)
  have other: "k \<notin> CanonicalMIMEHeaderKey ` set (TraceIDKey # forwardHeaders)"
    if "k = ''Content-Type'' \<or> k = ''Authorization''" for k
    using that by (auto simp: forwardHeaders_def TraceIDKey_def canon_samples)
  have inj: "map_of (fst (Inject stubTracer c (Header sampleOutbound))) ''Content-Type'' =
               Some [''application/json'']"
    "map_of (fst (Inject stubTracer c (Header sampleOutbound))) ''Authorization'' = None" for c
    by (simp_all add: stubTracer_def sampleOutbound_def)
  from InjectTrace_allow_list[OF run] obtain span :: "string Span" where
    vals: "\<forall>h \<in> set forwardHeaders. Header_Get (Header (Request sampleInbound)) h \<noteq> '''' \<longrightarrow>
              Header_Get (Header req') h = Header_Get (Header (Request sampleInbound)) h"
    and rest: "\<forall>k. k \<notin> CanonicalMIMEHeaderKey ` set (TraceIDKey # forwardHeaders) \<longrightarrow>
              map_of (Header req') k =
                map_of (fst (Inject stubTracer (spanCtx span) (Header sampleOutbound))) k"
    by blast
  from vals fwd get have "Header_Get (Header req') ''x-request-id'' = ''abc123''"
    by force
  moreover from rest other inj
  have "map_of (Header req') ''Content-Type'' = Some [''application/json'']"
    and "map_of (Header req') ''Authorization'' = None"
    by simp_all
  ultimately show ?thesis using run by blast
qed

text \<open>
  Claim C10: for an allow-listed name, the request returned by \<open>InjectTrace\<close> holds
  under that name the single first inbound value when the inbound request has a first
  value that is not empty, whatever further values follow it and whatever the outgoing
  request held before; when the inbound request has no such header, no value for it, or
  an empty first value, the entry is as the tracer's injection left it.
\<close>

theorem InjectTrace_first_value:
  assumes "InjectTrace tr lvl (Some c) incomingReq outgoingReq s = Inr ((req', sp, ctx'), s')"
    and "h \<in> set forwardHeaders"
  shows "\<exists>span. sp = Some span \<and>
           map_of (Header req') (CanonicalMIMEHeaderKey h) =
             (case map_of (Header (Request incomingReq)) (CanonicalMIMEHeaderKey h) of
                Some (v # rest) \<Rightarrow>
                  if v \<noteq> '''' then Some [v]
                  else map_of (fst (Inject tr (spanCtx span) (Header outgoingReq)))
                         (CanonicalMIMEHeaderKey h)
              | _ \<Rightarrow> map_of (fst (Inject tr (spanCtx span) (Header outgoingReq)))
                       (CanonicalMIMEHeaderKey h))"
proof -
  let ?inH = "Header (Request incomingReq)"
  from InjectTrace_Inr_D[OF assms(1)] obtain span h2 where
    sp: "sp = Some span"
    and h2: "h2 = forwardLoop forwardHeaders ?inH (fst (Inject tr (spanCtx span) (Header outgoingReq)))"
    and req': "Header req' = (if Header_Get ?inH TraceIDKey \<noteq> ''''
                  then Header_Set h2 TraceIDKey (Header_Get ?inH TraceIDKey) else h2)"
    by blast
  from assms(2) canon_TraceIDKey_not_forwarded
  have ne: "CanonicalMIMEHeaderKey h \<noteq> CanonicalMIMEHeaderKey TraceIDKey" by (metis imageI)
  from assms(2) have mem: "CanonicalMIMEHeaderKey h \<in> CanonicalMIMEHeaderKey ` set forwardHeaders"
    by simp
  have "map_of (Header req') (CanonicalMIMEHeaderKey h) = map_of h2 (CanonicalMIMEHeaderKey h)"
    using ne by (simp add: req' map_of_Header_Set)
  with sp show ?thesis
    unfolding h2 by (simp add: map_of_forwardLoop mem firstValue_def split: option.splits list.splits)
qed

theorem InjectTrace_first_value_witness:
  "''x-request-id'' \<in> set forwardHeaders \<and>
   map_of (Header (Request sampleInbound)) (CanonicalMIMEHeaderKey ''x-request-id'') =
     Some [''abc123'', ''second''] \<and>
   (\<exists>req' sp ctx' s'.
      InjectTrace stubTracer 5 (Some background) sampleInbound sampleOutbound emptyWorld =
        Inr ((req', sp, ctx'), s') \<and>
      map_of (Header req') (CanonicalMIMEHeaderKey ''x-request-id'') = Some [''abc123''])"
proof -
  from sample_run obtain req' sp ctx' s' where
    run: "InjectTrace stubTracer 5 (Some background) sampleInbound sampleOutbound emptyWorld =
            Inr ((req', sp, ctx'), s')"
    by blast
  have fwd: "''x-request-id'' \<in> set forwardHeaders" by (simp add: forwardHeaders_def)
  have inb: "map_of (Header (Request sampleInbound)) (CanonicalMIMEHeaderKey ''x-request-id'') =
               Some [''abc123'', ''second'']"
    by (simp add: canon_samples sampleInbound_def)
  from InjectTrace_first_value[OF run fwd] inb
  have "map_of (Header req') (CanonicalMIMEHeaderKey ''x-request-id'') = Some [''abc123'']"
    by auto
  with run fwd inb show ?thesis by blast
qed

section \<open>Spans for an inbound request\<close>



section \<open>Redaction of the logged headers\<close>

text \<open>
  Claim C8: at log level debug or finer, \<open>StartSpan\<close> and
  \<open>StartSpanIfParentSpanExist\<close> add to the log one mapping of the inbound headers, and
  \<open>InjectTrace\<close> one mapping of the outgoing headers as they are after injection and
  forwarding; the mapping is the redaction of those headers: it has no entry for a header
  whose lower-cased name contains \<open>auth\<close>, its keys are exactly the lower-cased names of
  the other headers, and each of those is mapped to the header's first value when no two
  header names differ in letter case only.
\<close>

theorem debug_dump_redacted:
  assumes "lvl \<ge> DebugLevel"
  shows "(\<forall>r s'. StartSpan (tr :: 'c Tracer) lvl req name s = Inr (r, s') \<longrightarrow>
            (\<exists>m. headerDumps (logged s') =
                   headerDumps (logged s) @ [(''incoming header : '', m)] \<and>
                 redacted (Header (Request req)) m)) \<and>
         (\<forall>r s'. StartSpanIfParentSpanExist tr lvl req name s = Inr (r, s') \<longrightarrow>
            (\<exists>m. headerDumps (logged s') =
                   headerDumps (logged s) @ [(''incoming header : '', m)] \<and>
                 redacted (Header (Request req)) m)) \<and>
         (\<forall>c req' span ctx' s'.
            InjectTrace tr lvl (Some c) incomingReq outgoingReq s =
              Inr ((req', Some span, ctx'), s') \<longrightarrow>
            (\<exists>m. headerDumps (logged s') =
                   headerDumps (logged s) @ [(''outgoing header : '', m)] \<and>
                 redacted (forwardLoop forwardHeaders (Header (Request incomingReq))
                             (fst (Inject tr (spanCtx span) (Header outgoingReq)))) m))"
proof (intro conjI allI impI)
  fix r s'
  assume "StartSpan tr lvl req name s = Inr (r, s')"
  from StartSpan_Inr_D[OF this assms]
  show "\<exists>m. headerDumps (logged s') =
              headerDumps (logged s) @ [(''incoming header : '', m)] \<and>
            redacted (Header (Request req)) m"
    using redacted_dumped by blast
next
  fix r s'
  assume "StartSpanIfParentSpanExist tr lvl req name s = Inr (r, s')"
  from StartSpanIfParentSpanExist_Inr_D[OF this assms]
  show "\<exists>m. headerDumps (logged s') =
              headerDumps (logged s) @ [(''incoming header : '', m)] \<and>
            redacted (Header (Request req)) m"
    using redacted_dumped by blast
next
  fix c req' and span :: "'c Span" and ctx' s'
  let ?h2 = "forwardLoop forwardHeaders (Header (Request incomingReq))
               (fst (Inject tr (spanCtx span) (Header outgoingReq)))"
  assume "InjectTrace tr lvl (Some c) incomingReq outgoingReq s = Inr ((req', Some span, ctx'), s')"
  from InjectTrace_Inr_D[OF this] assms
  have "dumpable ?h2"
    and "logged s' = logged s @ [HeaderDump ''outgoing header : '' (map_of (rev (dumped ?h2)))]"
    by auto
  then show "\<exists>m. headerDumps (logged s') =
              headerDumps (logged s) @ [(''outgoing header : '', m)] \<and> redacted ?h2 m"
    using redacted_dumped by (auto simp: headerDumps_append)
qed

theorem debug_dump_redacted_witness:
  "(\<exists>r s' m. StartSpan stubTracer 5 sampleInbound ''handler'' emptyWorld = Inr (r, s') \<and>
      headerDumps (logged s') = [(''incoming header : '', m)] \<and>
      m ''authorization'' = None \<and> m ''x-request-id'' = Some ''abc123'') \<and>
   (\<exists>r s' m. StartSpanIfParentSpanExist stubTracer 5 sampleInbound ''handler'' emptyWorld =
        Inr (r, s') \<and>
      headerDumps (logged s') = [(''incoming header : '', m)] \<and>
      m ''authorization'' = None \<and> m ''x-request-id'' = Some ''abc123'') \<and>
   (\<exists>req' span ctx' s' m.
      InjectTrace stubTracer 5 (Some background) sampleInbound sampleOutbound emptyWorld =
        Inr ((req', Some span, ctx'), s') \<and>
      headerDumps (logged s') = [(''outgoing header : '', m)] \<and>
      m ''content-type'' = Some ''application/json'' \<and>
      m ''x-request-id'' = Some ''abc123'')"
proof -
  have lvl: "(5::nat) \<ge> DebugLevel" by (simp add: DebugLevel_def)
  note inst = debug_dump_redacted[OF lvl, of stubTracer sampleInbound "''handler''" emptyWorld
      sampleInbound sampleOutbound]
  have empty: "headerDumps (logged emptyWorld) = []" by (simp add: emptyWorld_def)
  have inb: "m ''authorization'' = None \<and> m ''x-request-id'' = Some ''abc123''"
    if "redacted (Header (Request sampleInbound)) m" for m
  proof -
    have "distinct (map (ToLower \<circ> fst) (Header (Request sampleInbound)))"
      by (simp add: sampleInbound_def lower_samples)
    moreover have "(''Authorization'', [''Bearer s3cret'']) \<in> set (Header (Request sampleInbound))"
      and "(''X-Request-Id'', [''abc123'', ''second'']) \<in> set (Header (Request sampleInbound))"
      by (simp_all add: sampleInbound_def)
    ultimately show ?thesis
      using that lower_samples auth_samples unfolding redacted_def by fastforce
  qed
  have outb: "m ''content-type'' = Some ''application/json'' \<and>
              m ''x-request-id'' = Some ''abc123''"
    if "redacted (forwardLoop forwardHeaders (Header (Request sampleInbound))
                   (fst (Inject stubTracer c (Header sampleOutbound)))) m" for m c
  proof -
    let ?h = "[(''Content-Type'', [''application/json'']), (''X-B3-Traceid'', [c]),
               (''X-Request-Id'', [''abc123''])]"
    from that have r: "redacted ?h m" by (simp only: sample_forwarded)
    have "distinct (map (ToLower \<circ> fst) ?h)"
      by (simp add: lower_samples)
    with r lower_samples auth_samples show ?thesis
      unfolding redacted_def by fastforce
  qed
  from StartSpan_returns[of 5 sampleInbound stubTracer "''handler''" emptyWorld]
    sample_inbound_dumpable
  obtain r1 s1 where 1: "StartSpan stubTracer 5 sampleInbound ''handler'' emptyWorld = Inr (r1, s1)"
    by blast
  from StartSpanIfParentSpanExist_returns[of 5 sampleInbound stubTracer "''handler''" emptyWorld]
    sample_inbound_dumpable
  obtain r2 s2 where
    2: "StartSpanIfParentSpanExist stubTracer 5 sampleInbound ''handler'' emptyWorld = Inr (r2, s2)"
    by blast
  from sample_run obtain req' sp ctx' s3 where
    run: "InjectTrace stubTracer 5 (Some background) sampleInbound sampleOutbound emptyWorld =
            Inr ((req', sp, ctx'), s3)"
    by blast
  from InjectTrace_Inr_D[OF run] obtain span :: "string Span" where sp: "sp = Some span" by blast
  from inst 1 empty inb have A: "\<exists>r s' m. StartSpan stubTracer 5 sampleInbound ''handler'' emptyWorld = Inr (r, s') \<and>
      headerDumps (logged s') = [(''incoming header : '', m)] \<and>
      m ''authorization'' = None \<and> m ''x-request-id'' = Some ''abc123''"
    by (metis append_Nil)
  from inst 2 empty inb have B: "\<exists>r s' m. StartSpanIfParentSpanExist stubTracer 5 sampleInbound ''handler'' emptyWorld =
        Inr (r, s') \<and>
      headerDumps (logged s') = [(''incoming header : '', m)] \<and>
      m ''authorization'' = None \<and> m ''x-request-id'' = Some ''abc123''"
    by (metis append_Nil)
  from inst run[unfolded sp] empty outb have C: "\<exists>req' span ctx' s' m.
      InjectTrace stubTracer 5 (Some background) sampleInbound sampleOutbound emptyWorld =
        Inr ((req', Some span, ctx'), s') \<and>
      headerDumps (logged s') = [(''outgoing header : '', m)] \<and>
      m ''content-type'' = Some ''application/json'' \<and>
      m ''x-request-id'' = Some ''abc123''"
    by (metis append_Nil)
  from A B C show ?thesis by blast
qed

end
